theory Spec2Isabelle
  imports Complex_Main "HOL-Library.AList"
begin

section \<open>The hearing-test relay: \<open>POST /addToShopify\<close> of \<open>server.mjs\<close>\<close>

text \<open>
  The repository is one Express handler. It validates \<open>req.body\<close> against a Joi schema,
  checks the phone number with libphonenumber-js, builds the Shopify customer payload,
  posts it with \<open>fetch\<close> and translates the upstream answer into the HTTP response.

  The handler is embedded as the function \<open>addToShopify\<close>. What the handler reads from outside
  its own text is passed in explicitly:
  \<^item> \<open>lib\<close>: the parts of the imported libraries whose result depends on the characters of a
    string (Joi's e-mail rule, Joi's string-to-number conversion, the phone parser);
  \<^item> \<open>world\<close>: the two environment variables, the clock read by \<open>new Date()\<close> and the answer
    of the network to the outbound request.
  The effect the handler has on the outside is returned: the list of outbound requests it
  issued and the response it sent with \<open>res.status(...).json(...)\<close>, both with the body that
  \<open>JSON.stringify\<close> writes. Console output is not part of the model.
\<close>

subsection \<open>JavaScript values\<close>

text \<open>
  A number that \<open>JSON.parse\<close> can produce is a finite double, the negative zero (from
  \<open>-0\<close>) or an infinity (\<open>1e999\<close> parses to \<open>Infinity\<close>). A finite double other than the
  negative zero is a rational number, and the code only compares numbers.
\<close>

datatype jsnum = Finite rat | NegZero | PosInfinity | NegInfinity

datatype json =
    JNull
  | JBool bool
  | JNum jsnum
  | JStr string
  | JArr "json list"
  | JObj "(string \<times> json) list"

text \<open>
  \<open>JSON.stringify\<close>, as the value that the text it writes stands for: an infinity is written
  \<open>null\<close> and the negative zero \<open>0\<close>; everything else is written as it is.
\<close>

primrec JSON_stringify :: "json \<Rightarrow> json" where
  "JSON_stringify JNull = JNull"
| "JSON_stringify (JBool b) = JBool b"
| "JSON_stringify (JNum n) =
     (case n of
        Finite q \<Rightarrow> JNum (Finite q)
      | NegZero \<Rightarrow> JNum (Finite 0)
      | PosInfinity \<Rightarrow> JNull
      | NegInfinity \<Rightarrow> JNull)"
| "JSON_stringify (JStr s) = JStr s"
| "JSON_stringify (JArr xs) = JArr (map JSON_stringify xs)"
| "JSON_stringify (JObj ps) = JObj (map (map_prod id JSON_stringify) ps)"

text \<open>
  \<open>req.body\<close> as \<open>express.json()\<close> leaves it: in its default strict mode the parser accepts
  a JSON text only when it is an object or an array, and the handler is modelled on the
  requests whose body it has parsed. An object that \<open>JSON.parse\<close> made is the list of its
  own properties in the order of \<open>Object.keys\<close>; an own property is looked up with
  \<open>map_of\<close>. The key \<open>__proto__\<close> of a JSON text becomes an own property like any other.
\<close>

datatype req_body = BodyObject "(string \<times> json) list" | BodyArray "json list"

text \<open>
  Joi validates a shallow clone of the body, \<open>Object.assign(Object.create(prototype), body)\<close>.
  Assigning the key \<open>__proto__\<close> runs the setter of \<open>Object.prototype\<close>: the clone gets no
  own property of that name, and when the value is an object it becomes the prototype of
  the clone. The clone is therefore its own properties together with the properties it
  inherits from a parsed object; \<open>js_get\<close> is the read \<open>value[k]\<close> and \<open>js_set\<close> the
  assignment \<open>value[k] = x\<close>. They are used for the keys of the schema, none of which
  \<open>Object.prototype\<close> or an array defines.
\<close>

record js_object =
  own :: "(string \<times> json) list"
  inherited :: "(string \<times> json) list"

definition clone :: "(string \<times> json) list \<Rightarrow> js_object" where
  "clone obj =
     \<lparr>own = filter (\<lambda>(k, v). k \<noteq> ''__proto__'') obj,
      inherited = (case map_of obj ''__proto__'' of Some (JObj ps) \<Rightarrow> ps | _ \<Rightarrow> [])\<rparr>"

definition js_get :: "js_object \<Rightarrow> string \<Rightarrow> json option" where
  "js_get v k = (case map_of (own v) k of Some x \<Rightarrow> Some x | None \<Rightarrow> map_of (inherited v) k)"

definition js_set :: "js_object \<Rightarrow> string \<Rightarrow> json \<Rightarrow> js_object" where
  "js_set v k x = v\<lparr>own := AList.update k x (own v)\<rparr>"

record js_error =
  err_name :: string
  err_message :: string

text \<open>\<open>Error.prototype.toString\<close>.\<close>

definition error_toString :: "js_error \<Rightarrow> string" where
  "error_toString e =
     (if err_name e = [] then err_message e
      else if err_message e = [] then err_name e
      else err_name e @ '': '' @ err_message e)"

subsection \<open>Library behaviour taken as given\<close>

text \<open>
  What \<open>Joi.number()\<close> makes of a string before it validates: the string does not look like
  a number and is left as it is; or the conversion reports \<open>number.unsafe\<close>; or the string is
  replaced by a number.
\<close>

datatype coerced = Unchanged | Unsafe | Converted jsnum

record 'p lib =
  isEmail :: "string \<Rightarrow> bool"
    \<comment> \<open>the rule added by \<open>.email()\<close>, on a non-empty string\<close>
  coerceNumber :: "string \<Rightarrow> coerced"
    \<comment> \<open>the conversion \<open>Joi.number()\<close> applies to a string\<close>
  parsePhoneNumberFromString :: "string \<Rightarrow> 'p option"
    \<comment> \<open>\<open>None\<close> is \<open>undefined\<close>\<close>
  isValid :: "'p \<Rightarrow> bool"

subsection \<open>The Joi schema\<close>

datatype joi_type = TString | TNumber

datatype presence = Optional | Required

record joi_schema =
  joi_type :: joi_type
  has_email :: bool
  presence :: presence

definition joi_string :: joi_schema where
  "joi_string = \<lparr>joi_type = TString, has_email = False, presence = Optional\<rparr>"

definition joi_number :: joi_schema where
  "joi_number = \<lparr>joi_type = TNumber, has_email = False, presence = Optional\<rparr>"

definition joi_email :: "joi_schema \<Rightarrow> joi_schema" where
  "joi_email s = s\<lparr>has_email := True\<rparr>"

definition joi_required :: "joi_schema \<Rightarrow> joi_schema" where
  "joi_required s = s\<lparr>presence := Required\<rparr>"

definition joi_optional :: "joi_schema \<Rightarrow> joi_schema" where
  "joi_optional s = s\<lparr>presence := Optional\<rparr>"

definition customerSchema :: "(string \<times> joi_schema) list" where
  "customerSchema =
     [(''email'', joi_required (joi_email joi_string)),
      (''firstName'', joi_optional joi_string),
      (''lastName'', joi_optional joi_string),
      (''phone'', joi_optional joi_string),
      (''hearingLossLevel'', joi_optional joi_string),
      (''averageVolume'', joi_optional joi_number),
      (''wordRecognitionScore'', joi_optional joi_number),
      (''wordsMissed'', joi_optional joi_number)]"

subsection \<open>Joi validation with default preferences\<close>

text \<open>
  \<open>schema.validate(value)\<close> with Joi's defaults: \<open>abortEarly\<close> (the first error is the only
  one reported), \<open>convert\<close> (a numeric string is accepted by \<open>Joi.number()\<close> and replaced by
  the number), unknown keys not allowed, and the empty string not allowed by
  \<open>Joi.string()\<close>. An error is its code and the label of the key it is about.
  \<open>Joi.number()\<close> replaces the negative zero by \<open>0\<close>.
\<close>

datatype joi_code =
    AnyRequired
  | StringBase
  | StringEmpty
  | StringEmail
  | NumberBase
  | NumberInfinity
  | NumberUnsafe
  | ObjectUnknown
  | ObjectBase

record joi_detail =
  code :: joi_code
  label :: string

definition MAX_SAFE_INTEGER :: rat where
  "MAX_SAFE_INTEGER = 9007199254740991"

definition validate_number :: "jsnum \<Rightarrow> joi_code + json option" where
  "validate_number n =
     (case n of
        PosInfinity \<Rightarrow> Inl NumberInfinity
      | NegInfinity \<Rightarrow> Inl NumberInfinity
      | NegZero \<Rightarrow> Inr (Some (JNum (Finite 0)))
      | Finite q \<Rightarrow>
          if q > MAX_SAFE_INTEGER \<or> q < - MAX_SAFE_INTEGER then Inl NumberUnsafe
          else Inr (Some (JNum n)))"

definition validate_string :: "'p lib \<Rightarrow> joi_schema \<Rightarrow> json \<Rightarrow> joi_code + json option" where
  "validate_string L sch v =
     (case v of
        JStr s \<Rightarrow>
          if s = [] then Inl StringEmpty
          else if has_email sch \<and> \<not> isEmail L s then Inl StringEmail
          else Inr (Some v)
      | _ \<Rightarrow> Inl StringBase)"

text \<open>
  One key of the object: the item is \<open>None\<close> when reading the key gives \<open>undefined\<close>. The result is the error code, or the value to store under the key
  (\<open>None\<close>: nothing to store).
\<close>

definition validate_item ::
  "'p lib \<Rightarrow> joi_schema \<Rightarrow> json option \<Rightarrow> joi_code + json option" where
  "validate_item L sch item =
     (case item of
        None \<Rightarrow> if presence sch = Required then Inl AnyRequired else Inr None
      | Some v \<Rightarrow>
          (case joi_type sch of
             TString \<Rightarrow> validate_string L sch v
           | TNumber \<Rightarrow>
               (case v of
                  JNum n \<Rightarrow> validate_number n
                | JStr s \<Rightarrow>
                    (case coerceNumber L s of
                       Unchanged \<Rightarrow> Inl NumberBase
                     | Unsafe \<Rightarrow> Inl NumberUnsafe
                     | Converted n \<Rightarrow> validate_number n)
                | _ \<Rightarrow> Inl NumberBase)))"

text \<open>
  The keys of the schema, in the order of the schema: each is read from the clone, and a
  value that passes is assigned to the clone. The first error ends the loop.
\<close>

fun validate_keys ::
  "'p lib \<Rightarrow> (string \<times> joi_schema) list \<Rightarrow> js_object \<Rightarrow> joi_detail + js_object" where
  "validate_keys L [] value = Inr value"
| "validate_keys L ((k, sch) # rest) value =
     (case validate_item L sch (js_get value k) of
        Inl c \<Rightarrow> Inl \<lparr>code = c, label = k\<rparr>
      | Inr None \<Rightarrow> validate_keys L rest value
      | Inr (Some v) \<Rightarrow> validate_keys L rest (js_set value k v))"

text \<open>
  \<open>Joi.object(keys).validate(body)\<close>: an array is not an object; the body is cloned; then
  the keys of the schema; then the own properties of the clone left over, none of which is
  allowed.
\<close>

definition validate ::
  "'p lib \<Rightarrow> (string \<times> joi_schema) list \<Rightarrow> req_body \<Rightarrow> joi_detail + js_object" where
  "validate L keys body =
     (case body of
        BodyArray xs \<Rightarrow> Inl \<lparr>code = ObjectBase, label = ''value''\<rparr>
      | BodyObject obj \<Rightarrow>
          (case validate_keys L keys (clone obj) of
             Inl e \<Rightarrow> Inl e
           | Inr value \<Rightarrow>
               (case filter (\<lambda>k. k \<notin> set (map fst keys)) (map fst (own value)) of
                  [] \<Rightarrow> Inr value
                | k # ks \<Rightarrow> Inl \<lparr>code = ObjectUnknown, label = k\<rparr>)))"

text \<open>\<open>error.details[0].message\<close>: the label in double quotes and the text of the code.\<close>

fun template :: "joi_code \<Rightarrow> string" where
  "template AnyRequired = '' is required''"
| "template StringBase = '' must be a string''"
| "template StringEmpty = '' is not allowed to be empty''"
| "template StringEmail = '' must be a valid email''"
| "template NumberBase = '' must be a number''"
| "template NumberInfinity = '' cannot be infinity''"
| "template NumberUnsafe = '' must be a safe number''"
| "template ObjectUnknown = '' is not allowed''"
| "template ObjectBase = '' must be of type object''"

definition message :: "joi_detail \<Rightarrow> string" where
  "message d = [CHR 0x22] @ label d @ [CHR 0x22] @ template (code d)"

subsection \<open>The request handler\<close>

text \<open>
  The destructured \<open>value\<close>. A field is \<open>None\<close> when the property is \<open>undefined\<close>. The types
  are the ones the schema leaves in a validated object (lemma \<open>validated_types\<close> below).
\<close>

record customer_value =
  email :: "string option"
  firstName :: "string option"
  lastName :: "string option"
  phone :: "string option"
  hearingLossLevel :: "string option"
  averageVolume :: "jsnum option"
  wordRecognitionScore :: "jsnum option"
  wordsMissed :: "jsnum option"

definition string_of :: "json option \<Rightarrow> string option" where
  "string_of v = (case v of Some (JStr s) \<Rightarrow> Some s | _ \<Rightarrow> None)"

definition number_of :: "json option \<Rightarrow> jsnum option" where
  "number_of v = (case v of Some (JNum n) \<Rightarrow> Some n | _ \<Rightarrow> None)"

definition destructure :: "js_object \<Rightarrow> customer_value" where
  "destructure value =
     \<lparr>email = string_of (js_get value ''email''),
      firstName = string_of (js_get value ''firstName''),
      lastName = string_of (js_get value ''lastName''),
      phone = string_of (js_get value ''phone''),
      hearingLossLevel = string_of (js_get value ''hearingLossLevel''),
      averageVolume = number_of (js_get value ''averageVolume''),
      wordRecognitionScore = number_of (js_get value ''wordRecognitionScore''),
      wordsMissed = number_of (js_get value ''wordsMissed'')\<rparr>"

text \<open>\<open>if (x)\<close> and \<open>x || d\<close> on a string that may be \<open>undefined\<close>.\<close>

definition truthy :: "string option \<Rightarrow> bool" where
  "truthy x = (case x of None \<Rightarrow> False | Some s \<Rightarrow> s \<noteq> [])"

definition or_else :: "string option \<Rightarrow> string \<Rightarrow> string" where
  "or_else x d = (case x of None \<Rightarrow> d | Some s \<Rightarrow> if s = [] then d else s)"

text \<open>The phone block: true when the handler returns the 400 of the phone number.\<close>

definition phone_rejected :: "'p lib \<Rightarrow> string option \<Rightarrow> bool" where
  "phone_rejected L ph =
     (case ph of
        None \<Rightarrow> False
      | Some p \<Rightarrow>
          if p = [] then False
          else (case parsePhoneNumberFromString L p of
                  None \<Rightarrow> True
                | Some phoneNumber \<Rightarrow> \<not> isValid L phoneNumber))"

fun join :: "string \<Rightarrow> string list \<Rightarrow> string" where
  "join sep [] = []"
| "join sep [x] = x"
| "join sep (x # y # ys) = x @ sep @ join sep (y # ys)"

definition tags :: "string option \<Rightarrow> string list" where
  "tags hll = (case hll of None \<Rightarrow> [] | Some h \<Rightarrow> if h = [] then [] else [h])"

definition tagsString :: "string option \<Rightarrow> string" where
  "tagsString hll = join '', '' (tags hll)"

definition metafields :: "string option \<Rightarrow> json list" where
  "metafields hll =
     (case hll of
        None \<Rightarrow> []
      | Some h \<Rightarrow>
          if h = [] then []
          else [JObj [(''namespace'', JStr ''custom''),
                      (''key'', JStr ''hearing_loss_level''),
                      (''value'', JStr h),
                      (''type'', JStr ''single_line_text_field'')]])"

text \<open>
  \<open>new Date().toISOString()\<close> is evaluated twice; the argument is the time the first and
  the second evaluation return.
\<close>

definition emailMarketingConsent :: "string \<Rightarrow> json" where
  "emailMarketingConsent now =
     JObj [(''state'', JStr ''subscribed''),
           (''opt_in_level'', JStr ''single_opt_in''),
           (''consent_updated_at'', JStr now)]"

definition smsMarketingConsent :: "string \<Rightarrow> json" where
  "smsMarketingConsent now =
     JObj [(''state'', JStr ''subscribed''),
           (''opt_in_level'', JStr ''single_opt_in''),
           (''consent_updated_at'', JStr now),
           (''consent_collected_from'', JStr ''SHOPIFY'')]"

text \<open>\<open>JSON.stringify\<close> leaves out a property whose value is \<open>undefined\<close>.\<close>

definition property :: "string \<Rightarrow> string option \<Rightarrow> (string \<times> json) list" where
  "property k v = (case v of None \<Rightarrow> [] | Some s \<Rightarrow> [(k, JStr s)])"

definition shopifyPayload :: "string \<Rightarrow> string \<Rightarrow> customer_value \<Rightarrow> json" where
  "shopifyPayload now1 now2 c =
     JObj [(''customer'',
       JObj (property ''email'' (email c) @
            [(''first_name'', JStr (or_else (firstName c) [])),
             (''last_name'', JStr (or_else (lastName c) [])),
             (''phone'', JStr (or_else (phone c) [])),
             (''verified_email'', JBool True),
             (''accepts_marketing'', JBool True),
             (''state'', JStr ''enabled''),
             (''tags'', JStr (tagsString (hearingLossLevel c))),
             (''metafields'', JArr (metafields (hearingLossLevel c))),
             (''email_marketing_consent'', emailMarketingConsent now1),
             (''sms_marketing_consent'', smsMarketingConsent now2)]))]"

subsection \<open>The outbound call and the response\<close>

text \<open>The \<open>payload\<close> of a request is the value of the JSON text sent as its body.\<close>

record http_request =
  url :: string
  http_method :: string
  headers :: "(string \<times> string) list"
  payload :: json

text \<open>
  What the handler uses of the upstream answer: the status, and what \<open>response.json()\<close>
  resolves to (\<open>Inr\<close>) or rejects with (\<open>Inl\<close>). The rate-limit header is only logged.
  \<open>response.ok\<close> is true for the statuses 200 to 299.
\<close>

record shopify_response =
  status :: nat
  json_result :: "js_error + json"

definition ok :: "shopify_response \<Rightarrow> bool" where
  "ok r = (200 \<le> status r \<and> status r < 300)"

record world =
  SHOPIFY_STORE_URL :: string
  SHOPIFY_ACCESS_TOKEN :: string
  clock :: "nat \<Rightarrow> string"
    \<comment> \<open>\<open>clock W n\<close>: the result of the \<open>n\<close>-th \<open>new Date().toISOString()\<close> of the request\<close>
  fetch :: "http_request \<Rightarrow> js_error + shopify_response"
    \<comment> \<open>\<open>Inl\<close>: the promise of \<open>fetch\<close> is rejected\<close>

text \<open>
  \<open>res.status(s).json(v)\<close> sends the status and the text \<open>JSON.stringify(v)\<close>; \<open>res_body\<close> is
  the value of that text.
\<close>

record http_response =
  res_status :: nat
  res_body :: json

definition res_json :: "nat \<Rightarrow> json \<Rightarrow> http_response" where
  "res_json s v = \<lparr>res_status = s, res_body = JSON_stringify v\<rparr>"

record outcome =
  outbound :: "http_request list"
  response :: http_response

definition shopifyRequest :: "world \<Rightarrow> json \<Rightarrow> http_request" where
  "shopifyRequest W p =
     \<lparr>url = ''https://'' @ SHOPIFY_STORE_URL W @ ''/admin/api/2023-07/customers.json'',
      http_method = ''POST'',
      headers = [(''Content-Type'', ''application/json''),
                 (''X-Shopify-Access-Token'', SHOPIFY_ACCESS_TOKEN W)],
      payload = JSON_stringify p\<rparr>"

definition internal_server_error :: "js_error \<Rightarrow> http_response" where
  "internal_server_error e =
     res_json 500 (JObj [(''message'', JStr ''Internal Server Error''),
                         (''error'', JStr (error_toString e))])"

text \<open>The \<open>try\<close> block after \<open>fetch\<close> has settled, with its \<open>catch\<close>.\<close>

definition respond :: "js_error + shopify_response \<Rightarrow> http_response" where
  "respond fetched =
     (case fetched of
        Inl e \<Rightarrow> internal_server_error e
      | Inr shopifyResponse \<Rightarrow>
          if \<not> ok shopifyResponse then
            (case json_result shopifyResponse of
               Inl e \<Rightarrow> internal_server_error e
             | Inr errorData \<Rightarrow>
                 res_json (status shopifyResponse) (JObj [(''error'', errorData)]))
          else
            (case json_result shopifyResponse of
               Inl e \<Rightarrow> internal_server_error e
             | Inr shopifyData \<Rightarrow>
                 res_json 200
                   (JObj [(''message'', JStr ''Customer added to Shopify successfully''),
                          (''data'', shopifyData)])))"

definition bad_request :: "string \<Rightarrow> outcome" where
  "bad_request msg =
     \<lparr>outbound = [], response = res_json 400 (JObj [(''error'', JStr msg)])\<rparr>"

definition addToShopify :: "'p lib \<Rightarrow> world \<Rightarrow> req_body \<Rightarrow> outcome" where
  "addToShopify L W body =
     (case validate L customerSchema body of
        Inl error \<Rightarrow> bad_request (message error)
      | Inr value \<Rightarrow>
          let c = destructure value in
          if phone_rejected L (phone c) then
            bad_request ''Enter a valid phone number in E.164 format''
          else
            let request = shopifyRequest W (shopifyPayload (clock W 0) (clock W 1) c)
            in \<lparr>outbound = [request], response = respond (fetch W request)\<rparr>)"

subsection \<open>Notions used in the statements\<close>

text \<open>What validation leaves under a key of the schema.\<close>

definition stored :: "'p lib \<Rightarrow> joi_schema \<Rightarrow> json option \<Rightarrow> json option" where
  "stored L s item = (case validate_item L s item of Inr r \<Rightarrow> r | Inl c \<Rightarrow> None)"

text \<open>\<open>payload.customer[k]\<close>.\<close>

definition customer_field :: "json \<Rightarrow> string \<Rightarrow> json option" where
  "customer_field p k =
     (case p of
        JObj ps \<Rightarrow> (case map_of ps ''customer'' of Some (JObj cs) \<Rightarrow> map_of cs k | _ \<Rightarrow> None)
      | _ \<Rightarrow> None)"

text \<open>
  The values of the optional fields that validation lets through, stated apart from the
  validator: a string field is absent or a non-empty string; a numeric field is absent,
  a finite number between \<open>- MAX_SAFE_INTEGER\<close> and \<open>MAX_SAFE_INTEGER\<close> (the negative zero
  is one), or a string converted to such a number.
\<close>

definition absent_or_nonempty_string :: "json option \<Rightarrow> bool" where
  "absent_or_nonempty_string item =
     (case item of None \<Rightarrow> True | Some (JStr s) \<Rightarrow> s \<noteq> [] | Some _ \<Rightarrow> False)"

definition safe_number :: "jsnum \<Rightarrow> bool" where
  "safe_number n =
     (case n of
        Finite q \<Rightarrow> - MAX_SAFE_INTEGER \<le> q \<and> q \<le> MAX_SAFE_INTEGER
      | NegZero \<Rightarrow> True
      | _ \<Rightarrow> False)"

definition absent_or_safe_number :: "'p lib \<Rightarrow> json option \<Rightarrow> bool" where
  "absent_or_safe_number L item =
     (case item of
        None \<Rightarrow> True
      | Some (JNum n) \<Rightarrow> safe_number n
      | Some (JStr s) \<Rightarrow> (case coerceNumber L s of Converted n \<Rightarrow> safe_number n | _ \<Rightarrow> False)
      | Some _ \<Rightarrow> False)"

text \<open>
  A value that \<open>JSON.stringify\<close> writes as it is: no infinity and no negative zero in it.
\<close>

primrec plain :: "json \<Rightarrow> bool" where
  "plain JNull = True"
| "plain (JBool b) = True"
| "plain (JNum n) = (case n of Finite q \<Rightarrow> True | _ \<Rightarrow> False)"
| "plain (JStr s) = True"
| "plain (JArr xs) = list_all id (map plain xs)"
| "plain (JObj ps) = list_all snd (map (map_prod id plain) ps)"

text \<open>
  A library and a world for the concrete instances: the e-mail rule accepts
  \<open>a@b.com\<close>, the phone parser knows one number, and the upstream gives a fixed answer.
\<close>

definition example_lib :: "string lib" where
  "example_lib =
     \<lparr>isEmail = (\<lambda>s. s = ''a@b.com''),
      coerceNumber = (\<lambda>s. if s = ''42'' then Converted (Finite 42) else Unchanged),
      parsePhoneNumberFromString = (\<lambda>s. if s = ''+12133734253'' then Some s else None),
      isValid = (\<lambda>p. True)\<rparr>"

definition example_world :: "js_error + shopify_response \<Rightarrow> world" where
  "example_world answer =
     \<lparr>SHOPIFY_STORE_URL = ''example.myshopify.com'',
      SHOPIFY_ACCESS_TOKEN = ''token'',
      clock = (\<lambda>n. if n = 0 then ''2024-01-01T00:00:00.000Z'' else ''2024-01-01T00:00:00.001Z''),
      fetch = (\<lambda>request. answer)\<rparr>"

section \<open>Properties of JavaScript values\<close>

lemma plain_stringify: "plain v \<Longrightarrow> JSON_stringify v = v"
proof (induction v)
  case (JNum n)
  then show ?case by (cases n) simp_all
next
  case (JArr xs)
  then have "\<forall>x \<in> set xs. JSON_stringify x = x" by (simp add: list_all_iff)
  then show ?case by (simp add: map_idI)
next
  case (JObj ps)
  have "map_prod id JSON_stringify p = p" if "p \<in> set ps" for p
  proof -
    obtain k x where p: "p = (k, x)" by (cases p)
    with that JObj.prems have "plain x" by (force simp: list_all_iff)
    moreover from p that have "x \<in> Basic_BNFs.snds p" by simp
    ultimately have "JSON_stringify x = x" using JObj.IH that by blast
    with p show ?thesis by simp
  qed
  then show ?case by (simp add: map_idI)
qed simp_all

lemma js_get_set: "js_get (js_set v k x) k' = (if k' = k then Some x else js_get v k')"
  by (simp add: js_get_def js_set_def update_conv' split: option.splits)

lemma inherited_set [simp]: "inherited (js_set v k x) = inherited v"
  by (simp add: js_set_def)

lemma map_of_filter_key:
  "k \<noteq> p \<Longrightarrow> map_of (filter (\<lambda>(k, v). k \<noteq> p) obj) k = map_of obj k"
  by (induction obj) auto

lemma js_get_clone:
  "k \<noteq> ''__proto__'' \<Longrightarrow>
   js_get (clone obj) k =
     (case map_of obj k of
        Some x \<Rightarrow> Some x
      | None \<Rightarrow> (case map_of obj ''__proto__'' of Some (JObj ps) \<Rightarrow> map_of ps k | _ \<Rightarrow> None))"
  by (simp add: js_get_def clone_def map_of_filter_key split: option.splits json.splits)

lemma clone_plain:
  "''__proto__'' \<notin> fst ` set obj \<Longrightarrow> clone obj = \<lparr>own = obj, inherited = []\<rparr>"
proof -
  assume a: "''__proto__'' \<notin> fst ` set obj"
  then have "map_of obj ''__proto__'' = None" by (simp add: map_of_eq_None_iff)
  moreover from a have "filter (\<lambda>(k, v). k \<noteq> ''__proto__'') obj = obj"
    by (induction obj) auto
  ultimately show ?thesis by (simp add: clone_def)
qed

lemma own_clone_keys:
  "set (map fst (own (clone obj))) = fst ` set obj - {''__proto__''}"
  by (auto simp: clone_def image_iff)

section \<open>Properties of validation\<close>

lemma validate_item_Some_defined:
  "validate_item L sch item = Inr (Some v) \<Longrightarrow> item \<noteq> None"
  by (cases item) (auto simp: validate_item_def split: if_splits)

lemma validate_item_None_absent:
  "validate_item L sch item = Inr None \<Longrightarrow> item = None"
  by (auto simp: validate_item_def validate_string_def validate_number_def
      split: option.splits joi_type.splits json.splits jsnum.splits if_splits coerced.splits)

text \<open>The loop over the schema leaves the own keys outside the schema as they are.\<close>

lemma validate_keys_keys:
  "validate_keys L sch v = Inr v' \<Longrightarrow>
   filter (\<lambda>k. k \<notin> set (map fst sch) \<union> K) (map fst (own v')) =
   filter (\<lambda>k. k \<notin> set (map fst sch) \<union> K) (map fst (own v))"
proof (induction sch arbitrary: v K)
  case Nil
  then show ?case by simp
next
  case (Cons a sch)
  obtain k s where a: "a = (k, s)" by (cases a)
  have un: "set (map fst (a # sch)) \<union> K = set (map fst sch) \<union> (insert k K)"
    using a by auto
  show ?case
  proof (cases "validate_item L s (js_get v k)")
    case (Inl c)
    with Cons.prems a show ?thesis by simp
  next
    case (Inr r)
    show ?thesis
    proof (cases r)
      case None
      with Cons.prems Inr a have "validate_keys L sch v = Inr v'" by simp
      from Cons.IH [OF this, of "insert k K"] show ?thesis unfolding un .
    next
      case (Some x)
      with Cons.prems a Inr have "validate_keys L sch (js_set v k x) = Inr v'" by simp
      from Cons.IH [OF this, of "insert k K"]
      have "filter (\<lambda>k'. k' \<notin> set (map fst sch) \<union> insert k K) (map fst (own v')) =
            filter (\<lambda>k'. k' \<notin> set (map fst sch) \<union> insert k K) (map fst (own (js_set v k x)))" .
      also have "\<dots> = filter (\<lambda>k'. k' \<notin> set (map fst sch) \<union> insert k K) (map fst (own v))"
        by (simp add: js_set_def update_keys)
      finally show ?thesis unfolding un .
    qed
  qed
qed

lemma validate_keys_inherited:
  "validate_keys L sch v = Inr v' \<Longrightarrow> inherited v' = inherited v"
proof (induction sch arbitrary: v)
  case Nil
  then show ?case by simp
next
  case (Cons a sch)
  obtain k s where a: "a = (k, s)" by (cases a)
  show ?case
  proof (cases "validate_item L s (js_get v k)")
    case (Inl c)
    with Cons.prems a show ?thesis by simp
  next
    case (Inr r)
    with Cons a show ?thesis by (cases r) (auto dest: Cons.IH)
  qed
qed

lemma validate_keys_lookup:
  "distinct (map fst sch) \<Longrightarrow> validate_keys L sch v = Inr v' \<Longrightarrow>
   js_get v' k = (case map_of sch k of None \<Rightarrow> js_get v k
                  | Some s \<Rightarrow> stored L s (js_get v k))"
proof (induction sch arbitrary: v)
  case Nil
  then show ?case by simp
next
  case (Cons a sch)
  obtain k' s where a: "a = (k', s)" by (cases a)
  from Cons.prems a have d: "distinct (map fst sch)" and nk: "map_of sch k' = None"
    by (auto simp: map_of_eq_None_iff)
  show ?case
  proof (cases "validate_item L s (js_get v k')")
    case (Inl c)
    with Cons.prems a show ?thesis by simp
  next
    case (Inr r)
    show ?thesis
    proof (cases r)
      case None
      with Cons.prems a Inr have "validate_keys L sch v = Inr v'" by simp
      from Cons.IH [OF d this] have
        ih: "js_get v' k = (case map_of sch k of None \<Rightarrow> js_get v k
                    | Some s \<Rightarrow> stored L s (js_get v k))" .
      from Inr None have "js_get v k' = None" using validate_item_None_absent by blast
      with ih nk Inr None a show ?thesis by (auto simp: stored_def)
    next
      case (Some x)
      with Cons.prems a Inr have "validate_keys L sch (js_set v k' x) = Inr v'" by simp
      from Cons.IH [OF d this] have
        ih: "js_get v' k = (case map_of sch k of None \<Rightarrow> js_get (js_set v k' x) k
                    | Some s \<Rightarrow> stored L s (js_get (js_set v k' x) k))" .
      with nk Inr Some a show ?thesis
        by (auto simp: stored_def js_get_set split: option.splits)
    qed
  qed
qed

lemma validate_keys_accepts_iff:
  "distinct (map fst sch) \<Longrightarrow>
   (\<exists>v'. validate_keys L sch v = Inr v') \<longleftrightarrow>
   (\<forall>(k, s) \<in> set sch. \<exists>r. validate_item L s (js_get v k) = Inr r)"
proof (induction sch arbitrary: v)
  case Nil
  then show ?case by simp
next
  case (Cons a sch)
  obtain k' s where a: "a = (k', s)" by (cases a)
  from Cons.prems a have d: "distinct (map fst sch)" and nk: "k' \<notin> fst ` set sch"
    by auto
  show ?case
  proof (cases "validate_item L s (js_get v k')")
    case (Inl c)
    with a show ?thesis by auto
  next
    case (Inr r)
    show ?thesis
    proof (cases r)
      case None
      with a Inr Cons.IH [OF d, of v] show ?thesis by auto
    next
      case (Some x)
      have "\<And>k s. (k, s) \<in> set sch \<Longrightarrow> js_get (js_set v k' x) k = js_get v k"
        using nk by (auto simp: js_get_set image_iff)
      with a Inr Some Cons.IH [OF d, of "js_set v k' x"] show ?thesis by auto
    qed
  qed
qed

lemma distinct_customerSchema: "distinct (map fst customerSchema)"
  by (simp add: customerSchema_def)

lemma validate_object:
  "validate L keys (BodyObject obj) = Inr value \<Longrightarrow>
   validate_keys L keys (clone obj) = Inr value"
  by (auto simp: validate_def split: sum.splits list.splits)

lemma validate_accepts_iff:
  "(\<exists>value. validate L keys (BodyObject obj) = Inr value) \<longleftrightarrow>
   (\<exists>value. validate_keys L keys (clone obj) = Inr value) \<and>
   fst ` set obj \<subseteq> insert ''__proto__'' (fst ` set keys)"
proof -
  have "filter (\<lambda>k. k \<notin> set (map fst keys)) (map fst (own v')) = [] \<longleftrightarrow>
        fst ` set obj \<subseteq> insert ''__proto__'' (fst ` set keys)"
    if "validate_keys L keys (clone obj) = Inr v'" for v'
  proof -
    from validate_keys_keys [OF that, of "{}"]
    have "filter (\<lambda>k. k \<notin> set (map fst keys)) (map fst (own v')) =
          filter (\<lambda>k. k \<notin> set (map fst keys)) (map fst (own (clone obj)))" by simp
    moreover have "filter (\<lambda>k. k \<notin> set (map fst keys)) (map fst (own (clone obj))) = [] \<longleftrightarrow>
        set (map fst (own (clone obj))) \<subseteq> fst ` set keys"
      by (auto simp: filter_empty_conv)
    ultimately show ?thesis unfolding own_clone_keys by auto
  qed
  then show ?thesis
    by (cases "validate_keys L keys (clone obj)") (auto simp: validate_def split: list.splits)
qed


lemma string_item_accepted:
  "validate_item L (joi_optional joi_string) item = Inr r \<Longrightarrow>
   r = item \<and> (item = None \<or> (\<exists>s. item = Some (JStr s) \<and> s \<noteq> []))"
  by (cases item)
     (auto simp: validate_item_def validate_string_def joi_optional_def joi_string_def
           split: json.splits if_splits)

lemma email_item_accepted:
  "validate_item L (joi_required (joi_email joi_string)) item = Inr r \<Longrightarrow>
   r = item \<and> (\<exists>s. item = Some (JStr s) \<and> s \<noteq> [] \<and> isEmail L s)"
  by (cases item)
     (auto simp: validate_item_def validate_string_def joi_required_def joi_email_def
                 joi_string_def
           split: json.splits if_splits)

lemma number_item_accepted:
  "validate_item L (joi_optional joi_number) item = Inr r \<Longrightarrow>
   (item = None \<and> r = None) \<or> (\<exists>n. r = Some (JNum n))"
  by (cases item)
     (auto simp: validate_item_def validate_number_def joi_optional_def joi_number_def
           split: json.splits jsnum.splits if_splits coerced.splits)

lemma string_item_accepts_iff:
  "(\<exists>r. validate_item L (joi_optional joi_string) item = Inr r) \<longleftrightarrow>
   absent_or_nonempty_string item"
  by (cases item)
     (auto simp: validate_item_def validate_string_def joi_optional_def joi_string_def
                 absent_or_nonempty_string_def
           split: json.splits)

lemma validate_number_accepts_iff:
  "(\<exists>r. validate_number n = Inr r) \<longleftrightarrow> safe_number n"
  by (cases n) (auto simp: validate_number_def safe_number_def)

lemma number_item_accepts_iff:
  "(\<exists>r. validate_item L (joi_optional joi_number) item = Inr r) \<longleftrightarrow>
   absent_or_safe_number L item"
proof (cases item)
  case None
  then show ?thesis
    by (simp add: validate_item_def joi_optional_def joi_number_def absent_or_safe_number_def)
next
  case (Some v)
  then show ?thesis
    by (cases v)
       (auto simp: validate_item_def joi_optional_def joi_number_def absent_or_safe_number_def
                   validate_number_accepts_iff
             split: coerced.splits)
qed

lemma email_item_accepts_iff:
  "(\<exists>r. validate_item L (joi_required (joi_email joi_string)) item = Inr r) \<longleftrightarrow>
   (\<exists>s. item = Some (JStr s) \<and> s \<noteq> [] \<and> isEmail L s)"
  by (cases item)
     (auto simp: validate_item_def validate_string_def joi_required_def joi_email_def
                 joi_string_def
           split: json.splits)

lemma email_item_rejected:
  assumes "item = None
         \<or> (\<exists>v. item = Some v \<and> (\<forall>s. v \<noteq> JStr s))
         \<or> item = Some (JStr [])
         \<or> (\<exists>s. item = Some (JStr s) \<and> \<not> isEmail L s)"
  shows "\<exists>c. validate_item L (joi_required (joi_email joi_string)) item = Inl c"
  using assms
  by (cases item)
     (auto simp: validate_item_def validate_string_def joi_required_def joi_email_def
                 joi_string_def
           split: json.splits)

lemma first_key_rejected:
  "validate_item L sch (js_get (clone obj) k) = Inl c \<Longrightarrow>
   validate L ((k, sch) # rest) (BodyObject obj) = Inl \<lparr>code = c, label = k\<rparr>"
  by (simp add: validate_def)

lemma array_rejected:
  "validate L keys (BodyArray xs) = Inl \<lparr>code = ObjectBase, label = ''value''\<rparr>"
  by (simp add: validate_def)

lemma unknown_key_rejected:
  assumes "k \<in> fst ` set obj" and "k \<notin> fst ` set keys" and "k \<noteq> ''__proto__''"
  shows "\<exists>e. validate L keys (BodyObject obj) = Inl e"
proof (cases "\<exists>value. validate L keys (BodyObject obj) = Inr value")
  case True
  with assms show ?thesis unfolding validate_accepts_iff by auto
next
  case False
  then show ?thesis by (cases "validate L keys (BodyObject obj)") auto
qed

text \<open>A string field of a validated object is what the clone of the body gave.\<close>

lemma validated_string_field:
  assumes v: "validate L customerSchema (BodyObject obj) = Inr value"
    and k: "k \<in> {''firstName'', ''lastName'', ''phone'', ''hearingLossLevel''}"
  shows "js_get value k = js_get (clone obj) k \<and>
         (js_get (clone obj) k = None \<or> (\<exists>s. js_get (clone obj) k = Some (JStr s) \<and> s \<noteq> []))"
proof -
  from v have vk: "validate_keys L customerSchema (clone obj) = Inr value"
    by (rule validate_object)
  from k have sch: "map_of customerSchema k = Some (joi_optional joi_string)"
    by (auto simp: customerSchema_def)
  then have "(k, joi_optional joi_string) \<in> set customerSchema" by (rule map_of_SomeD)
  with vk validate_keys_accepts_iff [OF distinct_customerSchema, of L "clone obj"]
  obtain r where r: "validate_item L (joi_optional joi_string) (js_get (clone obj) k) = Inr r"
    by blast
  from validate_keys_lookup [OF distinct_customerSchema vk, of k] sch r
  have "js_get value k = r" by (simp add: stored_def)
  with string_item_accepted [OF r] show ?thesis by simp
qed

lemma validated_types:
  assumes v: "validate L customerSchema (BodyObject obj) = Inr value"
  shows "(\<exists>s. js_get value ''email'' = Some (JStr s) \<and> s \<noteq> [] \<and> isEmail L s)"
    and "k \<in> {''firstName'', ''lastName'', ''phone'', ''hearingLossLevel''} \<Longrightarrow>
         js_get value k = None \<or> (\<exists>s. js_get value k = Some (JStr s) \<and> s \<noteq> [])"
    and "k \<in> {''averageVolume'', ''wordRecognitionScore'', ''wordsMissed''} \<Longrightarrow>
         js_get value k = None \<or> (\<exists>n. js_get value k = Some (JNum n))"
proof -
  from v have vk: "validate_keys L customerSchema (clone obj) = Inr value"
    by (rule validate_object)
  note acc = validate_keys_accepts_iff [OF distinct_customerSchema, of L "clone obj"]
  note look = validate_keys_lookup [OF distinct_customerSchema vk]
  have sch: "map_of customerSchema ''email'' = Some (joi_required (joi_email joi_string))"
    by (simp add: customerSchema_def)
  then have "(''email'', joi_required (joi_email joi_string)) \<in> set customerSchema"
    by (rule map_of_SomeD)
  with vk acc obtain r
    where r: "validate_item L (joi_required (joi_email joi_string))
                (js_get (clone obj) ''email'') = Inr r"
    by blast
  from look [of "''email''"] sch r have "js_get value ''email'' = r" by (simp add: stored_def)
  with email_item_accepted [OF r]
  show "\<exists>s. js_get value ''email'' = Some (JStr s) \<and> s \<noteq> [] \<and> isEmail L s" by simp
next
  assume "k \<in> {''firstName'', ''lastName'', ''phone'', ''hearingLossLevel''}"
  from validated_string_field [OF v this]
  show "js_get value k = None \<or> (\<exists>s. js_get value k = Some (JStr s) \<and> s \<noteq> [])" by auto
next
  assume k: "k \<in> {''averageVolume'', ''wordRecognitionScore'', ''wordsMissed''}"
  from v have vk: "validate_keys L customerSchema (clone obj) = Inr value"
    by (rule validate_object)
  from k have sch: "map_of customerSchema k = Some (joi_optional joi_number)"
    by (auto simp: customerSchema_def)
  then have "(k, joi_optional joi_number) \<in> set customerSchema" by (rule map_of_SomeD)
  with vk validate_keys_accepts_iff [OF distinct_customerSchema, of L "clone obj"]
  obtain r where r: "validate_item L (joi_optional joi_number) (js_get (clone obj) k) = Inr r"
    by blast
  from validate_keys_lookup [OF distinct_customerSchema vk, of k] sch r
  have "js_get value k = r" by (simp add: stored_def)
  with number_item_accepted [OF r]
  show "js_get value k = None \<or> (\<exists>n. js_get value k = Some (JNum n))" by auto
qed

section \<open>Properties of the handler\<close>

lemma res_json_strings [simp]:
  "res_json s (JObj [(k, JStr m)]) = \<lparr>res_status = s, res_body = JObj [(k, JStr m)]\<rparr>"
  "res_json s (JObj [(k, JStr m), (k', JStr m')]) =
     \<lparr>res_status = s, res_body = JObj [(k, JStr m), (k', JStr m')]\<rparr>"
  by (simp_all add: res_json_def)

lemma rejected_is_bad_request:
  "validate L customerSchema body = Inl e \<Longrightarrow> addToShopify L W body = bad_request (message e)"
  by (simp add: addToShopify_def)

lemma destructure_string_field:
  "validate L customerSchema (BodyObject obj) = Inr value \<Longrightarrow>
   firstName (destructure value) = string_of (js_get (clone obj) ''firstName'') \<and>
   lastName (destructure value) = string_of (js_get (clone obj) ''lastName'') \<and>
   phone (destructure value) = string_of (js_get (clone obj) ''phone'') \<and>
   hearingLossLevel (destructure value) = string_of (js_get (clone obj) ''hearingLossLevel'')"
  using validated_string_field [of L obj "value"] by (simp add: destructure_def)

lemma or_else_empty: "or_else x [] = (case x of None \<Rightarrow> [] | Some s \<Rightarrow> s)"
  by (simp add: or_else_def split: option.splits)

lemma customer_field_shopifyPayload:
  "k \<noteq> ''email'' \<Longrightarrow>
   customer_field (shopifyPayload now1 now2 c) k =
   map_of [(''first_name'', JStr (or_else (firstName c) [])),
           (''last_name'', JStr (or_else (lastName c) [])),
           (''phone'', JStr (or_else (phone c) [])),
           (''verified_email'', JBool True),
           (''accepts_marketing'', JBool True),
           (''state'', JStr ''enabled''),
           (''tags'', JStr (tagsString (hearingLossLevel c))),
           (''metafields'', JArr (metafields (hearingLossLevel c))),
           (''email_marketing_consent'', emailMarketingConsent now1),
           (''sms_marketing_consent'', smsMarketingConsent now2)] k"
  by (cases "email c") (simp_all add: customer_field_def shopifyPayload_def property_def)

text \<open>The payload holds strings and booleans only: the text sent stands for the payload.\<close>

lemma stringify_shopifyPayload:
  "JSON_stringify (shopifyPayload now1 now2 c) = shopifyPayload now1 now2 c"
  by (rule plain_stringify)
     (simp add: shopifyPayload_def property_def metafields_def emailMarketingConsent_def
        smsMarketingConsent_def split: option.splits)

lemma outbound_payload:
  "request \<in> set (outbound (addToShopify L W body)) \<Longrightarrow>
   \<exists>value. validate L customerSchema body = Inr value \<and>
     request = shopifyRequest W (shopifyPayload (clock W 0) (clock W 1) (destructure value))"
  by (auto simp: addToShopify_def bad_request_def Let_def split: sum.splits if_splits)

lemma response_after_fetch:
  "outbound (addToShopify L W body) = [request] \<Longrightarrow>
   response (addToShopify L W body) = respond (fetch W request)"
  by (auto simp: addToShopify_def bad_request_def Let_def split: sum.splits if_splits)

subsection \<open>The concrete instances\<close>

lemma example_validate:
  "validate example_lib customerSchema (BodyObject [(''email'', JStr ''a@b.com'')]) =
   Inr (clone [(''email'', JStr ''a@b.com'')])"
  by (simp add: validate_def customerSchema_def validate_item_def validate_string_def
      joi_required_def joi_optional_def joi_email_def joi_string_def joi_number_def
      example_lib_def clone_def js_get_def js_set_def)

lemma example_phone_validate:
  "validate example_lib customerSchema
     (BodyObject [(''email'', JStr ''a@b.com''), (''phone'', JStr ''12345'')]) =
   Inr (clone [(''email'', JStr ''a@b.com''), (''phone'', JStr ''12345'')])"
  by (simp add: validate_def customerSchema_def validate_item_def validate_string_def
      joi_required_def joi_optional_def joi_email_def joi_string_def joi_number_def
      example_lib_def clone_def js_get_def js_set_def)

lemma example_moderate_validate:
  "validate example_lib customerSchema
     (BodyObject [(''email'', JStr ''a@b.com''), (''hearingLossLevel'', JStr ''moderate'')]) =
   Inr (clone [(''email'', JStr ''a@b.com''), (''hearingLossLevel'', JStr ''moderate'')])"
  by (simp add: validate_def customerSchema_def validate_item_def validate_string_def
      joi_required_def joi_optional_def joi_email_def joi_string_def joi_number_def
      example_lib_def clone_def js_get_def js_set_def)

lemma example_destructure:
  "destructure (clone [(''email'', JStr ''a@b.com'')]) =
   \<lparr>email = Some ''a@b.com'', firstName = None, lastName = None, phone = None,
    hearingLossLevel = None, averageVolume = None, wordRecognitionScore = None,
    wordsMissed = None\<rparr>"
  by (simp add: destructure_def string_of_def number_of_def clone_def js_get_def)

lemma example_outbound:
  "outbound (addToShopify example_lib (example_world answer)
      (BodyObject [(''email'', JStr ''a@b.com'')])) =
   [shopifyRequest (example_world answer)
      (shopifyPayload ''2024-01-01T00:00:00.000Z'' ''2024-01-01T00:00:00.001Z''
         (destructure (clone [(''email'', JStr ''a@b.com'')])))]"
  by (simp add: addToShopify_def example_validate example_destructure phone_rejected_def
      example_world_def Let_def)

lemma example_fetch: "fetch (example_world answer) request = answer"
  by (simp add: example_world_def)


lemma example_inherited_validate:
  "validate example_lib customerSchema
     (BodyObject [(''__proto__'', JObj [(''email'', JStr ''a@b.com'')])]) =
   Inr \<lparr>own = [(''email'', JStr ''a@b.com'')], inherited = [(''email'', JStr ''a@b.com'')]\<rparr>"
  by (simp add: validate_def customerSchema_def validate_item_def validate_string_def
      joi_required_def joi_optional_def joi_email_def joi_string_def joi_number_def
      example_lib_def clone_def js_get_def js_set_def)

lemma example_proto_validate:
  "validate example_lib customerSchema
     (BodyObject [(''email'', JStr ''a@b.com''), (''__proto__'', JObj [(''x'', JNum (Finite 1))])]) =
   Inr \<lparr>own = [(''email'', JStr ''a@b.com'')], inherited = [(''x'', JNum (Finite 1))]\<rparr>"
  by (simp add: validate_def customerSchema_def validate_item_def validate_string_def
      joi_required_def joi_optional_def joi_email_def joi_string_def joi_number_def
      example_lib_def clone_def js_get_def js_set_def)

section \<open>The claims\<close>

text \<open>
  C1, as the code has it. The e-mail the handler validates is what reading \<open>email\<close> on Joi's
  clone of the body gives: the body's own \<open>email\<close> or, when it has none, the \<open>email\<close> of an
  object given under the body's key \<open>__proto__\<close>. When that is missing, is not a string, is
  the empty string or fails the e-mail rule, and when the body is an array, the response is
  400 with one error message and no outbound request is made.
\<close>

theorem invalid_email_bad_request:
  assumes "(\<exists>xs. body = BodyArray xs)
         \<or> (\<exists>obj. body = BodyObject obj \<and>
              (js_get (clone obj) ''email'' = None
               \<or> (\<exists>v. js_get (clone obj) ''email'' = Some v \<and> (\<forall>s. v \<noteq> JStr s))
               \<or> js_get (clone obj) ''email'' = Some (JStr [])
               \<or> (\<exists>s. js_get (clone obj) ''email'' = Some (JStr s) \<and> \<not> isEmail L s)))"
  shows "\<exists>m. addToShopify L W body =
           \<lparr>outbound = [],
            response = \<lparr>res_status = 400, res_body = JObj [(''error'', JStr m)]\<rparr>\<rparr>"
proof -
  have "\<exists>e. validate L customerSchema body = Inl e"
  proof (cases body)
    case (BodyArray xs)
    then show ?thesis by (simp add: array_rejected)
  next
    case (BodyObject obj)
    with assms obtain c
      where "validate_item L (joi_required (joi_email joi_string))
               (js_get (clone obj) ''email'') = Inl c"
      using email_item_rejected [of "js_get (clone obj) ''email''" L] by auto
    then show ?thesis
      unfolding BodyObject customerSchema_def by (simp add: first_key_rejected)
  qed
  then obtain e where "validate L customerSchema body = Inl e" ..
  then have "addToShopify L W body = bad_request (message e)"
    by (rule rejected_is_bad_request)
  then show ?thesis by (simp add: bad_request_def)
qed

theorem invalid_email_bad_request_witness:
  "js_get (clone [(''firstName'', JStr ''Ann'')]) ''email'' = None \<and>
   addToShopify example_lib (example_world (Inl \<lparr>err_name = ''FetchError'', err_message = []\<rparr>))
     (BodyObject [(''firstName'', JStr ''Ann'')]) =
     \<lparr>outbound = [],
      response = \<lparr>res_status = 400,
        res_body = JObj [(''error'', JStr (CHR 0x22 # ''email'' @ CHR 0x22 # '' is required''))]\<rparr>\<rparr> \<and>
   js_get (clone [(''email'', JStr ''ann.example.com'')]) ''email'' =
     Some (JStr ''ann.example.com'') \<and>
   \<not> isEmail example_lib ''ann.example.com'' \<and>
   addToShopify example_lib (example_world (Inl \<lparr>err_name = ''FetchError'', err_message = []\<rparr>))
     (BodyObject [(''email'', JStr ''ann.example.com'')]) =
     \<lparr>outbound = [],
      response = \<lparr>res_status = 400,
        res_body = JObj [(''error'',
          JStr (CHR 0x22 # ''email'' @ CHR 0x22 # '' must be a valid email''))]\<rparr>\<rparr>"
proof -
  let ?W = "example_world (Inl \<lparr>err_name = ''FetchError'', err_message = []\<rparr>)"
  have missing: "js_get (clone [(''firstName'', JStr ''Ann'')]) ''email'' = None"
    by (simp add: js_get_def clone_def)
  then have "\<exists>m. addToShopify example_lib ?W (BodyObject [(''firstName'', JStr ''Ann'')]) =
           \<lparr>outbound = [],
            response = \<lparr>res_status = 400, res_body = JObj [(''error'', JStr m)]\<rparr>\<rparr>"
    by (intro invalid_email_bad_request) blast
  moreover have "validate example_lib customerSchema (BodyObject [(''firstName'', JStr ''Ann'')]) =
      Inl \<lparr>code = AnyRequired, label = ''email''\<rparr>"
    using missing
    by (simp add: validate_def customerSchema_def validate_item_def
        joi_required_def joi_email_def joi_string_def)
  ultimately have a: "addToShopify example_lib ?W (BodyObject [(''firstName'', JStr ''Ann'')]) =
     \<lparr>outbound = [],
      response = \<lparr>res_status = 400,
        res_body = JObj [(''error'', JStr (CHR 0x22 # ''email'' @ CHR 0x22 # '' is required''))]\<rparr>\<rparr>"
    by (simp add: addToShopify_def bad_request_def message_def)
  have present: "js_get (clone [(''email'', JStr ''ann.example.com'')]) ''email'' =
     Some (JStr ''ann.example.com'')"
    by (simp add: js_get_def clone_def)
  have invalid: "\<not> isEmail example_lib ''ann.example.com''"
    by (simp add: example_lib_def)
  with present
  have "\<exists>m. addToShopify example_lib ?W (BodyObject [(''email'', JStr ''ann.example.com'')]) =
           \<lparr>outbound = [],
            response = \<lparr>res_status = 400, res_body = JObj [(''error'', JStr m)]\<rparr>\<rparr>"
    by (intro invalid_email_bad_request) simp
  moreover have "validate example_lib customerSchema
      (BodyObject [(''email'', JStr ''ann.example.com'')]) =
      Inl \<lparr>code = StringEmail, label = ''email''\<rparr>"
    using invalid present
    by (simp add: validate_def customerSchema_def validate_item_def validate_string_def
        joi_required_def joi_email_def joi_string_def)
  ultimately have b: "addToShopify example_lib ?W
     (BodyObject [(''email'', JStr ''ann.example.com'')]) =
     \<lparr>outbound = [],
      response = \<lparr>res_status = 400,
        res_body = JObj [(''error'',
          JStr (CHR 0x22 # ''email'' @ CHR 0x22 # '' must be a valid email''))]\<rparr>\<rparr>"
    by (simp add: addToShopify_def bad_request_def message_def)
  from missing a present invalid b show ?thesis by simp
qed

text \<open>
  The body \<open>{"__proto__": {"email": "a@b.com"}}\<close> has no \<open>email\<close> of its own; the handler
  validates the inherited one, sends the customer upstream and answers 200.
\<close>

theorem inherited_email_forwarded:
  "map_of [(''__proto__'', JObj [(''email'', JStr ''a@b.com'')])] ''email'' = None \<and>
   addToShopify example_lib
     (example_world (Inr \<lparr>status = 201,
        json_result = Inr (JObj [(''customer'', JObj [(''id'', JNum (Finite 1))])])\<rparr>))
     (BodyObject [(''__proto__'', JObj [(''email'', JStr ''a@b.com'')])]) =
   \<lparr>outbound =
      [shopifyRequest
         (example_world (Inr \<lparr>status = 201,
            json_result = Inr (JObj [(''customer'', JObj [(''id'', JNum (Finite 1))])])\<rparr>))
         (shopifyPayload ''2024-01-01T00:00:00.000Z'' ''2024-01-01T00:00:00.001Z''
            \<lparr>email = Some ''a@b.com'', firstName = None, lastName = None, phone = None,
             hearingLossLevel = None, averageVolume = None, wordRecognitionScore = None,
             wordsMissed = None\<rparr>)],
    response =
      \<lparr>res_status = 200,
       res_body = JObj [(''message'', JStr ''Customer added to Shopify successfully''),
                        (''data'', JObj [(''customer'', JObj [(''id'', JNum (Finite 1))])])]\<rparr>\<rparr>"
  by (simp add: addToShopify_def example_inherited_validate destructure_def string_of_def
      number_of_def js_get_def phone_rejected_def example_world_def Let_def respond_def ok_def
      res_json_def)


text \<open>
  C2. A body that passes the schema and whose \<open>phone\<close> does not parse, or parses to a number
  that is not valid, gets the response 400 with the phone message, and no outbound request
  is made.
\<close>

theorem invalid_phone_bad_request:
  assumes "validate L customerSchema (BodyObject obj) = Inr value"
    and "map_of obj ''phone'' = Some (JStr p)"
    and "parsePhoneNumberFromString L p = None
         \<or> (\<exists>phoneNumber. parsePhoneNumberFromString L p = Some phoneNumber
              \<and> \<not> isValid L phoneNumber)"
  shows "addToShopify L W (BodyObject obj) =
           \<lparr>outbound = [],
            response = \<lparr>res_status = 400,
               res_body = JObj [(''error'', JStr ''Enter a valid phone number in E.164 format'')]\<rparr>\<rparr>"
proof -
  from assms(2) have g: "js_get (clone obj) ''phone'' = Some (JStr p)"
    by (simp add: js_get_clone)
  from validated_string_field [OF assms(1), of "''phone''"] g
  have p: "p \<noteq> []" by simp
  from destructure_string_field [OF assms(1)] g
  have "phone (destructure value) = Some p" by (simp add: string_of_def)
  with p assms(3) have "phone_rejected L (phone (destructure value))"
    by (auto simp: phone_rejected_def)
  with assms(1) show ?thesis by (simp add: addToShopify_def bad_request_def)
qed

theorem invalid_phone_bad_request_witness:
  "map_of [(''email'', JStr ''a@b.com''), (''phone'', JStr ''12345'')] ''phone'' =
     Some (JStr ''12345'') \<and>
   parsePhoneNumberFromString example_lib ''12345'' = None \<and>
   addToShopify example_lib (example_world (Inl \<lparr>err_name = ''FetchError'', err_message = []\<rparr>))
     (BodyObject [(''email'', JStr ''a@b.com''), (''phone'', JStr ''12345'')]) =
   \<lparr>outbound = [],
    response = \<lparr>res_status = 400,
       res_body = JObj [(''error'', JStr ''Enter a valid phone number in E.164 format'')]\<rparr>\<rparr>"
proof -
  have p: "map_of [(''email'', JStr ''a@b.com''), (''phone'', JStr ''12345'')] ''phone'' =
     Some (JStr ''12345'')" by simp
  have n: "parsePhoneNumberFromString example_lib ''12345'' = None"
    by (simp add: example_lib_def)
  from invalid_phone_bad_request [OF example_phone_validate p disjI1, OF n] p n
  show ?thesis by simp
qed

text \<open>
  C3. For a validated input the tags and the metafields of the payload depend on its
  \<open>hearingLossLevel\<close> alone: without it the tag list is empty, the tag string is empty and
  there is no metafield; with it there is one tag, which is its value and the tag string,
  and one metafield with namespace \<open>custom\<close>, key \<open>hearing_loss_level\<close> and that value.
\<close>

theorem hearingLossLevel_tags_metafields:
  assumes "validate L customerSchema (BodyObject obj) = Inr value"
  shows "(js_get value ''hearingLossLevel'' = None \<longrightarrow>
            tags (hearingLossLevel (destructure value)) = [] \<and>
            customer_field (shopifyPayload now1 now2 (destructure value)) ''tags'' =
              Some (JStr []) \<and>
            customer_field (shopifyPayload now1 now2 (destructure value)) ''metafields'' =
              Some (JArr []))
       \<and> (\<forall>h. js_get value ''hearingLossLevel'' = Some (JStr h) \<longrightarrow>
            tags (hearingLossLevel (destructure value)) = [h] \<and>
            customer_field (shopifyPayload now1 now2 (destructure value)) ''tags'' =
              Some (JStr h) \<and>
            customer_field (shopifyPayload now1 now2 (destructure value)) ''metafields'' =
              Some (JArr [JObj [(''namespace'', JStr ''custom''),
                                (''key'', JStr ''hearing_loss_level''),
                                (''value'', JStr h),
                                (''type'', JStr ''single_line_text_field'')]]))
       \<and> (\<forall>h. map_of obj ''hearingLossLevel'' = Some (JStr h) \<longrightarrow>
            js_get value ''hearingLossLevel'' = Some (JStr h))
       \<and> (map_of obj ''hearingLossLevel'' = None \<and> map_of obj ''__proto__'' = None \<longrightarrow>
            js_get value ''hearingLossLevel'' = None)"
proof -
  have hll: "hearingLossLevel (destructure value) = string_of (js_get value ''hearingLossLevel'')"
    by (simp add: destructure_def)
  from validated_types(2) [OF assms, of "''hearingLossLevel''"]
  have ne: "\<And>h. js_get value ''hearingLossLevel'' = Some (JStr h) \<Longrightarrow> h \<noteq> []"
    by auto
  have payload: "(js_get value ''hearingLossLevel'' = None \<longrightarrow>
            tags (hearingLossLevel (destructure value)) = [] \<and>
            customer_field (shopifyPayload now1 now2 (destructure value)) ''tags'' =
              Some (JStr []) \<and>
            customer_field (shopifyPayload now1 now2 (destructure value)) ''metafields'' =
              Some (JArr []))
       \<and> (\<forall>h. js_get value ''hearingLossLevel'' = Some (JStr h) \<longrightarrow>
            tags (hearingLossLevel (destructure value)) = [h] \<and>
            customer_field (shopifyPayload now1 now2 (destructure value)) ''tags'' =
              Some (JStr h) \<and>
            customer_field (shopifyPayload now1 now2 (destructure value)) ''metafields'' =
              Some (JArr [JObj [(''namespace'', JStr ''custom''),
                                (''key'', JStr ''hearing_loss_level''),
                                (''value'', JStr h),
                                (''type'', JStr ''single_line_text_field'')]]))"
    using ne
    by (auto simp: hll string_of_def customer_field_shopifyPayload tags_def tagsString_def
        metafields_def)
  from validated_string_field [OF assms, of "''hearingLossLevel''"]
  have same: "js_get value ''hearingLossLevel'' = js_get (clone obj) ''hearingLossLevel''"
    by simp
  have body: "(\<forall>h. map_of obj ''hearingLossLevel'' = Some (JStr h) \<longrightarrow>
            js_get value ''hearingLossLevel'' = Some (JStr h))
       \<and> (map_of obj ''hearingLossLevel'' = None \<and> map_of obj ''__proto__'' = None \<longrightarrow>
            js_get value ''hearingLossLevel'' = None)"
    unfolding same by (simp add: js_get_clone)
  from payload body show ?thesis by simp
qed

theorem hearingLossLevel_tags_metafields_witness:
  "js_get (clone [(''email'', JStr ''a@b.com''), (''hearingLossLevel'', JStr ''moderate'')])
      ''hearingLossLevel'' = Some (JStr ''moderate'') \<and>
   customer_field (shopifyPayload ''t1'' ''t2''
      (destructure (clone [(''email'', JStr ''a@b.com''),
                           (''hearingLossLevel'', JStr ''moderate'')])))
      ''tags'' = Some (JStr ''moderate'') \<and>
   customer_field (shopifyPayload ''t1'' ''t2''
      (destructure (clone [(''email'', JStr ''a@b.com''),
                           (''hearingLossLevel'', JStr ''moderate'')])))
      ''metafields'' =
     Some (JArr [JObj [(''namespace'', JStr ''custom''),
                       (''key'', JStr ''hearing_loss_level''),
                       (''value'', JStr ''moderate''),
                       (''type'', JStr ''single_line_text_field'')]]) \<and>
   js_get (clone [(''email'', JStr ''a@b.com'')]) ''hearingLossLevel'' = None \<and>
   customer_field (shopifyPayload ''t1'' ''t2'' (destructure (clone [(''email'', JStr ''a@b.com'')])))
      ''tags'' = Some (JStr []) \<and>
   customer_field (shopifyPayload ''t1'' ''t2'' (destructure (clone [(''email'', JStr ''a@b.com'')])))
      ''metafields'' = Some (JArr [])"
proof -
  have a: "js_get (clone [(''email'', JStr ''a@b.com''), (''hearingLossLevel'', JStr ''moderate'')])
      ''hearingLossLevel'' = Some (JStr ''moderate'')"
    by (simp add: js_get_def clone_def)
  have b: "js_get (clone [(''email'', JStr ''a@b.com'')]) ''hearingLossLevel'' = None"
    by (simp add: js_get_def clone_def)
  from hearingLossLevel_tags_metafields [OF example_moderate_validate, of "''t1''" "''t2''"]
    hearingLossLevel_tags_metafields [OF example_validate, of "''t1''" "''t2''"] a b
  show ?thesis by simp
qed

text \<open>
  C4. Every payload the handler builds, and so the payload of every outbound request, has
  \<open>state\<close> \<open>enabled\<close>, \<open>verified_email\<close> true and \<open>accepts_marketing\<close> true, whatever the input.
\<close>

theorem payload_account_flags:
  "customer_field (shopifyPayload now1 now2 c) ''state'' = Some (JStr ''enabled'') \<and>
   customer_field (shopifyPayload now1 now2 c) ''verified_email'' = Some (JBool True) \<and>
   customer_field (shopifyPayload now1 now2 c) ''accepts_marketing'' = Some (JBool True) \<and>
   (\<forall>request \<in> set (outbound (addToShopify L W body)).
      customer_field (payload request) ''state'' = Some (JStr ''enabled'') \<and>
      customer_field (payload request) ''verified_email'' = Some (JBool True) \<and>
      customer_field (payload request) ''accepts_marketing'' = Some (JBool True))"
proof -
  have "customer_field (payload request) ''state'' = Some (JStr ''enabled'') \<and>
      customer_field (payload request) ''verified_email'' = Some (JBool True) \<and>
      customer_field (payload request) ''accepts_marketing'' = Some (JBool True)"
    if "request \<in> set (outbound (addToShopify L W body))" for request
    using outbound_payload [OF that]
    by (auto simp: shopifyRequest_def stringify_shopifyPayload customer_field_shopifyPayload)
  then show ?thesis by (simp add: customer_field_shopifyPayload)
qed

theorem payload_account_flags_witness:
  "outbound (addToShopify example_lib
       (example_world (Inl \<lparr>err_name = ''FetchError'', err_message = []\<rparr>))
       (BodyObject [(''email'', JStr ''a@b.com'')])) =
     [shopifyRequest (example_world (Inl \<lparr>err_name = ''FetchError'', err_message = []\<rparr>))
      (shopifyPayload ''2024-01-01T00:00:00.000Z'' ''2024-01-01T00:00:00.001Z''
         (destructure (clone [(''email'', JStr ''a@b.com'')])))] \<and>
   customer_field (shopifyPayload ''2024-01-01T00:00:00.000Z'' ''2024-01-01T00:00:00.001Z''
         (destructure (clone [(''email'', JStr ''a@b.com'')]))) ''state'' =
     Some (JStr ''enabled'') \<and>
   customer_field (shopifyPayload ''2024-01-01T00:00:00.000Z'' ''2024-01-01T00:00:00.001Z''
         (destructure (clone [(''email'', JStr ''a@b.com'')]))) ''verified_email'' =
     Some (JBool True) \<and>
   customer_field (shopifyPayload ''2024-01-01T00:00:00.000Z'' ''2024-01-01T00:00:00.001Z''
         (destructure (clone [(''email'', JStr ''a@b.com'')]))) ''accepts_marketing'' =
     Some (JBool True)"
  using payload_account_flags
    [of "''2024-01-01T00:00:00.000Z''" "''2024-01-01T00:00:00.001Z''"
        "destructure (clone [(''email'', JStr ''a@b.com'')])" example_lib
        "example_world (Inl \<lparr>err_name = ''FetchError'', err_message = []\<rparr>)"
        "BodyObject [(''email'', JStr ''a@b.com'')]"]
  by (simp add: example_outbound)


text \<open>
  C5. In the payload \<open>first_name\<close>, \<open>last_name\<close> and \<open>phone\<close> are the empty string when the
  input has none; the two consents are \<open>subscribed\<close>, \<open>single_opt_in\<close>, stamped with the
  first and the second reading of the clock, and the SMS consent is collected from
  \<open>SHOPIFY\<close>. For the body \<open>{email: "a@b.com"}\<close> the handler sends exactly that payload with
  empty names, phone, tags and metafields.
\<close>

theorem payload_defaults_consents:
  "(firstName c = None \<longrightarrow>
      customer_field (shopifyPayload (clock W 0) (clock W 1) c) ''first_name'' = Some (JStr []))
   \<and> (lastName c = None \<longrightarrow>
      customer_field (shopifyPayload (clock W 0) (clock W 1) c) ''last_name'' = Some (JStr []))
   \<and> (phone c = None \<longrightarrow>
      customer_field (shopifyPayload (clock W 0) (clock W 1) c) ''phone'' = Some (JStr []))
   \<and> customer_field (shopifyPayload (clock W 0) (clock W 1) c) ''email_marketing_consent'' =
       Some (JObj [(''state'', JStr ''subscribed''),
                   (''opt_in_level'', JStr ''single_opt_in''),
                   (''consent_updated_at'', JStr (clock W 0))])
   \<and> customer_field (shopifyPayload (clock W 0) (clock W 1) c) ''sms_marketing_consent'' =
       Some (JObj [(''state'', JStr ''subscribed''),
                   (''opt_in_level'', JStr ''single_opt_in''),
                   (''consent_updated_at'', JStr (clock W 1)),
                   (''consent_collected_from'', JStr ''SHOPIFY'')])
   \<and> (isEmail L ''a@b.com'' \<longrightarrow>
        map payload (outbound (addToShopify L W (BodyObject [(''email'', JStr ''a@b.com'')]))) =
        [JObj [(''customer'', JObj
           [(''email'', JStr ''a@b.com''),
            (''first_name'', JStr []),
            (''last_name'', JStr []),
            (''phone'', JStr []),
            (''verified_email'', JBool True),
            (''accepts_marketing'', JBool True),
            (''state'', JStr ''enabled''),
            (''tags'', JStr []),
            (''metafields'', JArr []),
            (''email_marketing_consent'',
               JObj [(''state'', JStr ''subscribed''),
                     (''opt_in_level'', JStr ''single_opt_in''),
                     (''consent_updated_at'', JStr (clock W 0))]),
            (''sms_marketing_consent'',
               JObj [(''state'', JStr ''subscribed''),
                     (''opt_in_level'', JStr ''single_opt_in''),
                     (''consent_updated_at'', JStr (clock W 1)),
                     (''consent_collected_from'', JStr ''SHOPIFY'')])])]])"
proof -
  have "isEmail L ''a@b.com'' \<Longrightarrow>
    validate L customerSchema (BodyObject [(''email'', JStr ''a@b.com'')]) =
      Inr (clone [(''email'', JStr ''a@b.com'')])"
    by (simp add: validate_def customerSchema_def validate_item_def validate_string_def
      joi_required_def joi_optional_def joi_email_def joi_string_def joi_number_def
      clone_def js_get_def js_set_def)
  then have "isEmail L ''a@b.com'' \<Longrightarrow>
    map payload (outbound (addToShopify L W (BodyObject [(''email'', JStr ''a@b.com'')]))) =
      [shopifyPayload (clock W 0) (clock W 1) (destructure (clone [(''email'', JStr ''a@b.com'')]))]"
    by (simp add: addToShopify_def example_destructure phone_rejected_def Let_def
        shopifyRequest_def stringify_shopifyPayload)
  then have scenario: "isEmail L ''a@b.com'' \<Longrightarrow>
    map payload (outbound (addToShopify L W (BodyObject [(''email'', JStr ''a@b.com'')]))) =
      [JObj [(''customer'', JObj
           [(''email'', JStr ''a@b.com''),
            (''first_name'', JStr []),
            (''last_name'', JStr []),
            (''phone'', JStr []),
            (''verified_email'', JBool True),
            (''accepts_marketing'', JBool True),
            (''state'', JStr ''enabled''),
            (''tags'', JStr []),
            (''metafields'', JArr []),
            (''email_marketing_consent'', emailMarketingConsent (clock W 0)),
            (''sms_marketing_consent'', smsMarketingConsent (clock W 1))])]]"
    by (simp add: example_destructure shopifyPayload_def property_def or_else_def
        tagsString_def tags_def metafields_def)
  have general:
    "customer_field (shopifyPayload (clock W 0) (clock W 1) c) ''first_name'' =
       Some (JStr (or_else (firstName c) []))"
    "customer_field (shopifyPayload (clock W 0) (clock W 1) c) ''last_name'' =
       Some (JStr (or_else (lastName c) []))"
    "customer_field (shopifyPayload (clock W 0) (clock W 1) c) ''phone'' =
       Some (JStr (or_else (phone c) []))"
    "customer_field (shopifyPayload (clock W 0) (clock W 1) c) ''email_marketing_consent'' =
       Some (emailMarketingConsent (clock W 0))"
    "customer_field (shopifyPayload (clock W 0) (clock W 1) c) ''sms_marketing_consent'' =
       Some (smsMarketingConsent (clock W 1))"
    by (simp_all add: customer_field_shopifyPayload)
  from scenario show ?thesis
    unfolding general by (simp add: or_else_def emailMarketingConsent_def smsMarketingConsent_def)
qed

theorem payload_defaults_consents_witness:
  "firstName (destructure (clone [(''email'', JStr ''a@b.com'')])) = None \<and>
   lastName (destructure (clone [(''email'', JStr ''a@b.com'')])) = None \<and>
   phone (destructure (clone [(''email'', JStr ''a@b.com'')])) = None \<and>
   isEmail example_lib ''a@b.com'' \<and>
   map payload (outbound (addToShopify example_lib
       (example_world (Inl \<lparr>err_name = ''FetchError'', err_message = []\<rparr>))
       (BodyObject [(''email'', JStr ''a@b.com'')]))) =
     [JObj [(''customer'', JObj
        [(''email'', JStr ''a@b.com''),
         (''first_name'', JStr []),
         (''last_name'', JStr []),
         (''phone'', JStr []),
         (''verified_email'', JBool True),
         (''accepts_marketing'', JBool True),
         (''state'', JStr ''enabled''),
         (''tags'', JStr []),
         (''metafields'', JArr []),
         (''email_marketing_consent'',
            JObj [(''state'', JStr ''subscribed''),
                  (''opt_in_level'', JStr ''single_opt_in''),
                  (''consent_updated_at'', JStr ''2024-01-01T00:00:00.000Z'')]),
         (''sms_marketing_consent'',
            JObj [(''state'', JStr ''subscribed''),
                  (''opt_in_level'', JStr ''single_opt_in''),
                  (''consent_updated_at'', JStr ''2024-01-01T00:00:00.001Z''),
                  (''consent_collected_from'', JStr ''SHOPIFY'')])])]] \<and>
   customer_field (shopifyPayload ''2024-01-01T00:00:00.000Z'' ''2024-01-01T00:00:00.001Z''
       (destructure (clone [(''email'', JStr ''a@b.com'')]))) ''first_name'' = Some (JStr [])"
proof -
  have e: "isEmail example_lib ''a@b.com''" by (simp add: example_lib_def)
  have c: "clock (example_world a) 0 = ''2024-01-01T00:00:00.000Z''"
    "clock (example_world a) 1 = ''2024-01-01T00:00:00.001Z''" for a
    by (simp_all add: example_world_def)
  from payload_defaults_consents
    [of "destructure (clone [(''email'', JStr ''a@b.com'')])"
        "example_world (Inl \<lparr>err_name = ''FetchError'', err_message = []\<rparr>)" example_lib]
    e
  show ?thesis unfolding c by (simp add: example_destructure)
qed

text \<open>
  C6, as the code has it. For a body with no unknown key, an \<open>email\<close> that passes and a
  \<open>phone\<close> that is absent or a non-empty string, validation accepts the body exactly when
  \<open>firstName\<close>, \<open>lastName\<close> and \<open>hearingLossLevel\<close> are each absent or a non-empty string and
  \<open>averageVolume\<close>, \<open>wordRecognitionScore\<close> and \<open>wordsMissed\<close> are each absent, a finite
  number between \<open>- MAX_SAFE_INTEGER\<close> and \<open>MAX_SAFE_INTEGER\<close>, or a string converted to such
  a number.
\<close>

theorem optional_fields_accepted_iff:
  assumes "fst ` set obj \<subseteq> {''email'', ''firstName'', ''lastName'', ''phone'',
             ''hearingLossLevel'', ''averageVolume'', ''wordRecognitionScore'', ''wordsMissed''}"
    and "map_of obj ''email'' = Some (JStr e)" and "e \<noteq> []" and "isEmail L e"
    and "absent_or_nonempty_string (map_of obj ''phone'')"
  shows "(\<exists>value. validate L customerSchema (BodyObject obj) = Inr value) \<longleftrightarrow>
         absent_or_nonempty_string (map_of obj ''firstName'') \<and>
         absent_or_nonempty_string (map_of obj ''lastName'') \<and>
         absent_or_nonempty_string (map_of obj ''hearingLossLevel'') \<and>
         absent_or_safe_number L (map_of obj ''averageVolume'') \<and>
         absent_or_safe_number L (map_of obj ''wordRecognitionScore'') \<and>
         absent_or_safe_number L (map_of obj ''wordsMissed'')"
proof -
  from assms(1) have keys: "fst ` set obj \<subseteq> insert ''__proto__'' (fst ` set customerSchema)"
    by (auto simp: customerSchema_def)
  from assms(1) have "''__proto__'' \<notin> fst ` set obj" by auto
  then have cl: "clone obj = \<lparr>own = obj, inherited = []\<rparr>" by (rule clone_plain)
  have get: "js_get (clone obj) k = map_of obj k" for k
    unfolding cl by (simp add: js_get_def split: option.splits)
  from assms(2-4)
  have em: "\<exists>r. validate_item L (joi_required (joi_email joi_string)) (map_of obj ''email'') = Inr r"
    by (simp add: email_item_accepts_iff)
  from assms(5)
  have ph: "\<exists>r. validate_item L (joi_optional joi_string) (map_of obj ''phone'') = Inr r"
    by (simp add: string_item_accepts_iff)
  have "(\<exists>value. validate L customerSchema (BodyObject obj) = Inr value) \<longleftrightarrow>
        (\<forall>(k, s) \<in> set customerSchema. \<exists>r. validate_item L s (map_of obj k) = Inr r)"
    using keys
    by (simp add: validate_accepts_iff validate_keys_accepts_iff [OF distinct_customerSchema] get)
  also have "\<dots> \<longleftrightarrow>
      (\<exists>r. validate_item L (joi_optional joi_string) (map_of obj ''firstName'') = Inr r) \<and>
      (\<exists>r. validate_item L (joi_optional joi_string) (map_of obj ''lastName'') = Inr r) \<and>
      (\<exists>r. validate_item L (joi_optional joi_string) (map_of obj ''hearingLossLevel'') = Inr r) \<and>
      (\<exists>r. validate_item L (joi_optional joi_number) (map_of obj ''averageVolume'') = Inr r) \<and>
      (\<exists>r. validate_item L (joi_optional joi_number) (map_of obj ''wordRecognitionScore'') = Inr r) \<and>
      (\<exists>r. validate_item L (joi_optional joi_number) (map_of obj ''wordsMissed'') = Inr r)"
    using em ph unfolding customerSchema_def by simp
  finally show ?thesis
    by (simp only: string_item_accepts_iff number_item_accepts_iff)
qed

theorem optional_fields_accepted_iff_witness:
  "map_of [(''email'', JStr ''a@b.com''), (''firstName'', JStr ''Ann''),
           (''averageVolume'', JStr ''42''), (''wordsMissed'', JNum (Finite 3))] ''email'' =
     Some (JStr ''a@b.com'') \<and>
   isEmail example_lib ''a@b.com'' \<and>
   (\<exists>value. validate example_lib customerSchema
      (BodyObject [(''email'', JStr ''a@b.com''), (''firstName'', JStr ''Ann''),
                   (''averageVolume'', JStr ''42''), (''wordsMissed'', JNum (Finite 3))]) =
      Inr value)"
proof -
  have e: "isEmail example_lib ''a@b.com''" by (simp add: example_lib_def)
  have ne: "''a@b.com'' \<noteq> []" by simp
  have m: "map_of [(''email'', JStr ''a@b.com''), (''firstName'', JStr ''Ann''),
           (''averageVolume'', JStr ''42''), (''wordsMissed'', JNum (Finite 3))] ''email'' =
     Some (JStr ''a@b.com'')" by simp
  have k: "fst ` set [(''email'', JStr ''a@b.com''), (''firstName'', JStr ''Ann''),
           (''averageVolume'', JStr ''42''), (''wordsMissed'', JNum (Finite 3))]
        \<subseteq> {''email'', ''firstName'', ''lastName'', ''phone'',
             ''hearingLossLevel'', ''averageVolume'', ''wordRecognitionScore'', ''wordsMissed''}"
    by simp
  have p: "absent_or_nonempty_string
     (map_of [(''email'', JStr ''a@b.com''), (''firstName'', JStr ''Ann''),
           (''averageVolume'', JStr ''42''), (''wordsMissed'', JNum (Finite 3))] ''phone'')"
    by (simp add: absent_or_nonempty_string_def)
  from optional_fields_accepted_iff [OF k m ne e p] e m
  show ?thesis
    by (simp add: absent_or_nonempty_string_def absent_or_safe_number_def safe_number_def
        MAX_SAFE_INTEGER_def example_lib_def)
qed

text \<open>
  With a valid \<open>email\<close>, an empty \<open>firstName\<close> and an \<open>averageVolume\<close> of \<open>1e20\<close> are each
  refused by validation: the response is 400 and nothing is sent upstream.
\<close>

theorem empty_or_unsafe_optional_field_rejected:
  "isEmail example_lib ''a@b.com'' \<and>
   addToShopify example_lib (example_world (Inl \<lparr>err_name = ''FetchError'', err_message = []\<rparr>))
     (BodyObject [(''email'', JStr ''a@b.com''), (''firstName'', JStr [])]) =
     \<lparr>outbound = [],
      response = \<lparr>res_status = 400,
        res_body = JObj [(''error'',
          JStr (CHR 0x22 # ''firstName'' @ CHR 0x22 # '' is not allowed to be empty''))]\<rparr>\<rparr> \<and>
   addToShopify example_lib (example_world (Inl \<lparr>err_name = ''FetchError'', err_message = []\<rparr>))
     (BodyObject [(''email'', JStr ''a@b.com''),
                  (''averageVolume'', JNum (Finite 100000000000000000000))]) =
     \<lparr>outbound = [],
      response = \<lparr>res_status = 400,
        res_body = JObj [(''error'',
          JStr (CHR 0x22 # ''averageVolume'' @ CHR 0x22 # '' must be a safe number''))]\<rparr>\<rparr>"
proof -
  have "validate example_lib customerSchema
      (BodyObject [(''email'', JStr ''a@b.com''), (''firstName'', JStr [])]) =
      Inl \<lparr>code = StringEmpty, label = ''firstName''\<rparr>"
    by (simp add: validate_def customerSchema_def validate_item_def validate_string_def
      joi_required_def joi_optional_def joi_email_def joi_string_def joi_number_def
      example_lib_def clone_def js_get_def js_set_def)
  moreover have "validate example_lib customerSchema
      (BodyObject [(''email'', JStr ''a@b.com''),
                   (''averageVolume'', JNum (Finite 100000000000000000000))]) =
      Inl \<lparr>code = NumberUnsafe, label = ''averageVolume''\<rparr>"
    by (simp add: validate_def customerSchema_def validate_item_def validate_string_def
      validate_number_def MAX_SAFE_INTEGER_def
      joi_required_def joi_optional_def joi_email_def joi_string_def joi_number_def
      example_lib_def clone_def js_get_def js_set_def)
  ultimately show ?thesis
    by (simp add: addToShopify_def bad_request_def message_def example_lib_def)
qed


text \<open>
  C7, as the code has it. When the upstream answers with a status outside 200..299 and a
  body that parses, the response has the status of the upstream and the body
  \<open>{error: <the parsed body>}\<close> as \<open>JSON.stringify\<close> writes it: the parsed body itself when it
  holds no infinity and no negative zero.
\<close>

theorem upstream_failure_passed_through:
  assumes "outbound (addToShopify L W body) = [request]"
    and "fetch W request = Inr shopifyResponse"
    and "\<not> ok shopifyResponse"
    and "json_result shopifyResponse = Inr errorData"
  shows "response (addToShopify L W body) =
           \<lparr>res_status = status shopifyResponse,
            res_body = JObj [(''error'', JSON_stringify errorData)]\<rparr>
       \<and> (plain errorData \<longrightarrow>
           response (addToShopify L W body) =
             \<lparr>res_status = status shopifyResponse, res_body = JObj [(''error'', errorData)]\<rparr>)"
  using assms by (simp add: response_after_fetch respond_def res_json_def plain_stringify)

theorem upstream_failure_passed_through_witness:
  "\<not> ok \<lparr>status = 422, json_result = Inr (JObj [(''errors'',
        JObj [(''email'', JArr [JStr ''has already been taken''])])])\<rparr> \<and>
   plain (JObj [(''errors'', JObj [(''email'', JArr [JStr ''has already been taken''])])]) \<and>
   response (addToShopify example_lib
     (example_world (Inr \<lparr>status = 422, json_result = Inr (JObj [(''errors'',
        JObj [(''email'', JArr [JStr ''has already been taken''])])])\<rparr>))
     (BodyObject [(''email'', JStr ''a@b.com'')])) =
   \<lparr>res_status = 422,
    res_body = JObj [(''error'', JObj [(''errors'',
        JObj [(''email'', JArr [JStr ''has already been taken''])])])]\<rparr>"
proof -
  have n: "\<not> ok \<lparr>status = 422, json_result = Inr (JObj [(''errors'',
        JObj [(''email'', JArr [JStr ''has already been taken''])])])\<rparr>"
    by (simp add: ok_def)
  have p: "plain (JObj [(''errors'', JObj [(''email'', JArr [JStr ''has already been taken''])])])"
    by simp
  from upstream_failure_passed_through [OF example_outbound example_fetch n] n p
  show ?thesis by simp
qed

text \<open>
  An upstream answer 503 whose body does not parse is answered 500, not 503; and an
  infinity in the parsed body of a 422 reaches the caller as \<open>null\<close>.
\<close>

theorem upstream_failure_not_passed_through:
  "\<not> ok \<lparr>status = 503, json_result =
        Inl \<lparr>err_name = ''SyntaxError'', err_message = ''Unexpected end of JSON input''\<rparr>\<rparr> \<and>
   response (addToShopify example_lib
     (example_world (Inr \<lparr>status = 503, json_result =
        Inl \<lparr>err_name = ''SyntaxError'', err_message = ''Unexpected end of JSON input''\<rparr>\<rparr>))
     (BodyObject [(''email'', JStr ''a@b.com'')])) =
   \<lparr>res_status = 500,
    res_body = JObj [(''message'', JStr ''Internal Server Error''),
                     (''error'', JStr ''SyntaxError: Unexpected end of JSON input'')]\<rparr> \<and>
   \<not> ok \<lparr>status = 422, json_result = Inr (JObj [(''retry_after'', JNum PosInfinity)])\<rparr> \<and>
   response (addToShopify example_lib
     (example_world (Inr \<lparr>status = 422,
        json_result = Inr (JObj [(''retry_after'', JNum PosInfinity)])\<rparr>))
     (BodyObject [(''email'', JStr ''a@b.com'')])) =
   \<lparr>res_status = 422, res_body = JObj [(''error'', JObj [(''retry_after'', JNull)])]\<rparr>"
  by (simp add: response_after_fetch [OF example_outbound] example_fetch respond_def ok_def
      internal_server_error_def error_toString_def res_json_def)

text \<open>
  C8, as the code has it. When the upstream answers with a status in 200..299 and a body
  that parses, the response is 200 with the fixed message and, as \<open>data\<close>, the parsed body
  as \<open>JSON.stringify\<close> writes it: the parsed body itself when it holds no infinity and no
  negative zero.
\<close>

theorem upstream_success_200:
  assumes "outbound (addToShopify L W body) = [request]"
    and "fetch W request = Inr shopifyResponse"
    and "ok shopifyResponse"
    and "json_result shopifyResponse = Inr shopifyData"
  shows "response (addToShopify L W body) =
           \<lparr>res_status = 200,
            res_body = JObj [(''message'', JStr ''Customer added to Shopify successfully''),
                             (''data'', JSON_stringify shopifyData)]\<rparr>
       \<and> (plain shopifyData \<longrightarrow>
           response (addToShopify L W body) =
             \<lparr>res_status = 200,
              res_body = JObj [(''message'', JStr ''Customer added to Shopify successfully''),
                               (''data'', shopifyData)]\<rparr>)"
  using assms by (simp add: response_after_fetch respond_def res_json_def plain_stringify)

theorem upstream_success_200_witness:
  "ok \<lparr>status = 201, json_result = Inr (JObj [(''customer'', JObj [(''id'', JNum (Finite 1))])])\<rparr> \<and>
   plain (JObj [(''customer'', JObj [(''id'', JNum (Finite 1))])]) \<and>
   response (addToShopify example_lib
     (example_world (Inr \<lparr>status = 201,
        json_result = Inr (JObj [(''customer'', JObj [(''id'', JNum (Finite 1))])])\<rparr>))
     (BodyObject [(''email'', JStr ''a@b.com'')])) =
   \<lparr>res_status = 200,
    res_body = JObj [(''message'', JStr ''Customer added to Shopify successfully''),
                     (''data'', JObj [(''customer'', JObj [(''id'', JNum (Finite 1))])])]\<rparr>"
proof -
  have y: "ok \<lparr>status = 201,
      json_result = Inr (JObj [(''customer'', JObj [(''id'', JNum (Finite 1))])])\<rparr>"
    by (simp add: ok_def)
  have p: "plain (JObj [(''customer'', JObj [(''id'', JNum (Finite 1))])])" by simp
  from upstream_success_200 [OF example_outbound example_fetch y] y p
  show ?thesis by simp
qed

text \<open>
  An upstream answer 204, whose empty body does not parse, is answered 500, not 200; and an
  infinity in the parsed body of a 200 reaches the caller as \<open>null\<close>.
\<close>

theorem upstream_success_not_200_or_modified:
  "ok \<lparr>status = 204, json_result =
        Inl \<lparr>err_name = ''SyntaxError'', err_message = ''Unexpected end of JSON input''\<rparr>\<rparr> \<and>
   response (addToShopify example_lib
     (example_world (Inr \<lparr>status = 204, json_result =
        Inl \<lparr>err_name = ''SyntaxError'', err_message = ''Unexpected end of JSON input''\<rparr>\<rparr>))
     (BodyObject [(''email'', JStr ''a@b.com'')])) =
   \<lparr>res_status = 500,
    res_body = JObj [(''message'', JStr ''Internal Server Error''),
                     (''error'', JStr ''SyntaxError: Unexpected end of JSON input'')]\<rparr> \<and>
   ok \<lparr>status = 200, json_result = Inr (JObj [(''total_spent'', JNum PosInfinity)])\<rparr> \<and>
   response (addToShopify example_lib
     (example_world (Inr \<lparr>status = 200,
        json_result = Inr (JObj [(''total_spent'', JNum PosInfinity)])\<rparr>))
     (BodyObject [(''email'', JStr ''a@b.com'')])) =
   \<lparr>res_status = 200,
    res_body = JObj [(''message'', JStr ''Customer added to Shopify successfully''),
                     (''data'', JObj [(''total_spent'', JNull)])]\<rparr>"
  by (simp add: response_after_fetch [OF example_outbound] example_fetch respond_def ok_def
      internal_server_error_def error_toString_def res_json_def)

text \<open>
  C9. When \<open>fetch\<close> is rejected, or the body of the upstream answer does not parse, the
  response is 500 with the message \<open>Internal Server Error\<close> and the error as a string.
\<close>

theorem fault_500:
  assumes "outbound (addToShopify L W body) = [request]"
    and "fetch W request = Inl e
         \<or> (\<exists>shopifyResponse. fetch W request = Inr shopifyResponse
              \<and> json_result shopifyResponse = Inl e)"
  shows "response (addToShopify L W body) =
           \<lparr>res_status = 500,
            res_body = JObj [(''message'', JStr ''Internal Server Error''),
                             (''error'', JStr (error_toString e))]\<rparr>"
  using assms by (auto simp: response_after_fetch respond_def internal_server_error_def)

theorem fault_500_witness:
  "response (addToShopify example_lib
     (example_world (Inl \<lparr>err_name = ''FetchError'', err_message = ''socket hang up''\<rparr>))
     (BodyObject [(''email'', JStr ''a@b.com'')])) =
   \<lparr>res_status = 500,
    res_body = JObj [(''message'', JStr ''Internal Server Error''),
                     (''error'', JStr ''FetchError: socket hang up'')]\<rparr> \<and>
   response (addToShopify example_lib
     (example_world (Inr \<lparr>status = 502, json_result =
        Inl \<lparr>err_name = ''SyntaxError'', err_message = ''Unexpected token <''\<rparr>\<rparr>))
     (BodyObject [(''email'', JStr ''a@b.com'')])) =
   \<lparr>res_status = 500,
    res_body = JObj [(''message'', JStr ''Internal Server Error''),
                     (''error'', JStr ''SyntaxError: Unexpected token <'')]\<rparr>"
proof -
  have "fetch (example_world (Inl \<lparr>err_name = ''FetchError'', err_message = ''socket hang up''\<rparr>))
          request = Inl \<lparr>err_name = ''FetchError'', err_message = ''socket hang up''\<rparr>"
    for request by (rule example_fetch)
  from fault_500 [OF example_outbound disjI1, OF this]
  have a: "response (addToShopify example_lib
     (example_world (Inl \<lparr>err_name = ''FetchError'', err_message = ''socket hang up''\<rparr>))
     (BodyObject [(''email'', JStr ''a@b.com'')])) =
   \<lparr>res_status = 500,
    res_body = JObj [(''message'', JStr ''Internal Server Error''),
                     (''error'', JStr ''FetchError: socket hang up'')]\<rparr>"
    by (simp add: error_toString_def)
  have "\<exists>shopifyResponse. fetch (example_world (Inr \<lparr>status = 502, json_result =
        Inl \<lparr>err_name = ''SyntaxError'', err_message = ''Unexpected token <''\<rparr>\<rparr>)) request
        = Inr shopifyResponse \<and> json_result shopifyResponse =
          Inl \<lparr>err_name = ''SyntaxError'', err_message = ''Unexpected token <''\<rparr>"
    for request by (simp add: example_fetch)
  from fault_500 [OF example_outbound disjI2, OF this]
  have b: "response (addToShopify example_lib
     (example_world (Inr \<lparr>status = 502, json_result =
        Inl \<lparr>err_name = ''SyntaxError'', err_message = ''Unexpected token <''\<rparr>\<rparr>))
     (BodyObject [(''email'', JStr ''a@b.com'')])) =
   \<lparr>res_status = 500,
    res_body = JObj [(''message'', JStr ''Internal Server Error''),
                     (''error'', JStr ''SyntaxError: Unexpected token <'')]\<rparr>"
    by (simp add: error_toString_def)
  from a b show ?thesis by simp
qed

text \<open>
  C10, as the code has it. A body with a key other than \<open>__proto__\<close> outside the eight keys
  of the schema gets the response 400, and no outbound request is made.
\<close>

theorem unknown_key_bad_request:
  assumes "k \<in> fst ` set obj"
    and "k \<notin> {''email'', ''firstName'', ''lastName'', ''phone'', ''hearingLossLevel'',
               ''averageVolume'', ''wordRecognitionScore'', ''wordsMissed''}"
    and "k \<noteq> ''__proto__''"
  shows "\<exists>m. addToShopify L W (BodyObject obj) =
           \<lparr>outbound = [],
            response = \<lparr>res_status = 400, res_body = JObj [(''error'', JStr m)]\<rparr>\<rparr>"
proof -
  from assms(2) have "k \<notin> fst ` set customerSchema"
    by (simp add: customerSchema_def)
  with assms(1,3) obtain e where "validate L customerSchema (BodyObject obj) = Inl e"
    using unknown_key_rejected by blast
  then have "addToShopify L W (BodyObject obj) = bad_request (message e)"
    by (rule rejected_is_bad_request)
  then show ?thesis by (simp add: bad_request_def)
qed

theorem unknown_key_bad_request_witness:
  "''isAdmin'' \<in> fst ` set [(''email'', JStr ''a@b.com''), (''isAdmin'', JBool True)] \<and>
   addToShopify example_lib (example_world (Inl \<lparr>err_name = ''FetchError'', err_message = []\<rparr>))
     (BodyObject [(''email'', JStr ''a@b.com''), (''isAdmin'', JBool True)]) =
     \<lparr>outbound = [],
      response = \<lparr>res_status = 400,
        res_body = JObj [(''error'', JStr (CHR 0x22 # ''isAdmin'' @ CHR 0x22 # '' is not allowed''))]\<rparr>\<rparr>"
proof -
  have k: "''isAdmin'' \<in> fst ` set [(''email'', JStr ''a@b.com''), (''isAdmin'', JBool True)]"
    by simp
  have "\<exists>m. addToShopify example_lib
      (example_world (Inl \<lparr>err_name = ''FetchError'', err_message = []\<rparr>))
      (BodyObject [(''email'', JStr ''a@b.com''), (''isAdmin'', JBool True)]) =
           \<lparr>outbound = [],
            response = \<lparr>res_status = 400, res_body = JObj [(''error'', JStr m)]\<rparr>\<rparr>"
    by (rule unknown_key_bad_request [OF k]) simp_all
  moreover have "validate example_lib customerSchema
      (BodyObject [(''email'', JStr ''a@b.com''), (''isAdmin'', JBool True)]) =
      Inl \<lparr>code = ObjectUnknown, label = ''isAdmin''\<rparr>"
    by (simp add: validate_def customerSchema_def validate_item_def validate_string_def
      joi_required_def joi_optional_def joi_email_def joi_string_def joi_number_def
      example_lib_def clone_def js_get_def js_set_def)
  ultimately show ?thesis using k
    by (simp add: addToShopify_def bad_request_def message_def)
qed

text \<open>
  The body \<open>{"email": "a@b.com", "__proto__": {"x": 1}}\<close> has a key outside the schema, and
  the handler sends the customer upstream and answers 200.
\<close>

theorem proto_key_accepted:
  "''__proto__'' \<in> fst ` set [(''email'', JStr ''a@b.com''),
                               (''__proto__'', JObj [(''x'', JNum (Finite 1))])] \<and>
   addToShopify example_lib
     (example_world (Inr \<lparr>status = 201,
        json_result = Inr (JObj [(''customer'', JObj [(''id'', JNum (Finite 1))])])\<rparr>))
     (BodyObject [(''email'', JStr ''a@b.com''), (''__proto__'', JObj [(''x'', JNum (Finite 1))])]) =
   \<lparr>outbound =
      [shopifyRequest
         (example_world (Inr \<lparr>status = 201,
            json_result = Inr (JObj [(''customer'', JObj [(''id'', JNum (Finite 1))])])\<rparr>))
         (shopifyPayload ''2024-01-01T00:00:00.000Z'' ''2024-01-01T00:00:00.001Z''
            \<lparr>email = Some ''a@b.com'', firstName = None, lastName = None, phone = None,
             hearingLossLevel = None, averageVolume = None, wordRecognitionScore = None,
             wordsMissed = None\<rparr>)],
    response =
      \<lparr>res_status = 200,
       res_body = JObj [(''message'', JStr ''Customer added to Shopify successfully''),
                        (''data'', JObj [(''customer'', JObj [(''id'', JNum (Finite 1))])])]\<rparr>\<rparr>"
  by (simp add: addToShopify_def example_proto_validate destructure_def string_of_def
      number_of_def js_get_def phone_rejected_def example_world_def Let_def respond_def ok_def
      res_json_def)

end
